theory Spec2Isabelle
  imports Complex_Main "HOL-Library.AList" "HOL-Library.Sublist"
begin

section \<open>Python values\<close>

text \<open>
  A Python \<open>str\<close> is a sequence of Unicode code points, so it is modelled as a list of
  natural numbers; \<open>py\<close> turns an ASCII literal of the source into such a list.
  Identifiers that only ever occur as constants of the source (section names, event types,
  route names) are written as Isabelle strings.
\<close>

type_synonym pystr = "nat list"

definition py :: "string \<Rightarrow> pystr" where
  "py s = map of_char s"

text \<open>The code points for which \<open>str.isspace\<close> holds; \<open>str.strip()\<close> removes them at both ends.\<close>

definition isspace :: "nat \<Rightarrow> bool" where
  "isspace c \<longleftrightarrow>
     (9 \<le> c \<and> c \<le> 13) \<or> (28 \<le> c \<and> c \<le> 32) \<or> c = 133 \<or> c = 160 \<or> c = 5760 \<or>
     (8192 \<le> c \<and> c \<le> 8202) \<or> c = 8232 \<or> c = 8233 \<or> c = 8239 \<or> c = 8287 \<or> c = 12288"

definition strip :: "pystr \<Rightarrow> pystr" where
  "strip s = rev (dropWhile isspace (rev (dropWhile isspace s)))"

definition startswith :: "pystr \<Rightarrow> pystr \<Rightarrow> bool" where
  "startswith s p \<longleftrightarrow> take (length p) s = p"


text \<open>\<open>s.startswith(("http://", "https://"))\<close>, the test both project checks use.\<close>

definition startswith_url :: "pystr \<Rightarrow> bool" where
  "startswith_url s \<longleftrightarrow> startswith s (py ''http://'') \<or> startswith s (py ''https://'')"

text \<open>
  Exceptions are values; the argument of each constructor is \<open>str(e)\<close>. \<open>ValueError\<close>
  and \<open>TypeError\<close> include their subclasses (\<open>json.JSONDecodeError\<close> and pydantic's
  \<open>ValidationError\<close> are \<open>ValueError\<close>s); \<open>OtherError\<close> is any other subclass of
  \<open>Exception\<close>, such as the timeout, rate-limit and connection errors of a model provider.
\<close>

datatype exn = ValueError pystr | TypeError pystr | OtherError pystr

fun str_exn :: "exn \<Rightarrow> pystr" where
  "str_exn (ValueError m) = m"
| "str_exn (TypeError m) = m"
| "str_exn (OtherError m) = m"

text \<open>\<open>str(n)\<close> for an integer, as the f-strings of the source render it.\<close>

function str_nat :: "nat \<Rightarrow> pystr" where
  "str_nat n = (if n < 10 then [48 + n] else str_nat (n div 10) @ [48 + n mod 10])"
  by pat_completeness auto
termination
  by (relation "measure id") auto

definition str_int :: "int \<Rightarrow> pystr" where
  "str_int i = (if i < 0 then 45 # str_nat (nat (- i)) else str_nat (nat i))"

section \<open>Schemas\<close>

text \<open>
  The pydantic models of \<open>schemas/\<close>. A \<open>datetime\<close> is only compared and copied by the
  code, so it is an integer instant. The three entry classes whose attributes the
  validators assign to (Experience, Education, Project) are objects in a store and a list
  of them is a list of references; entries of the other sections are never assigned to and
  are plain values.
\<close>

type_synonym datetime = int

type_synonym ref = nat

datatype SkillType = SOFT | TECHNICAL

datatype LanguageProficiencyLevel = A1 | A2 | B1 | B2 | C1 | C2 | NATIVE

record JobDescription =
  job_title :: pystr
  company_name :: "pystr option"
  responsibilities :: "pystr list"
  requirements :: "pystr list"
  required_skills :: "pystr list"
  preferred_skills :: "pystr list"
  seniority_level :: pystr
  soft_skills :: "pystr list option"

record PersonalInfo =
  full_name :: pystr
  phone_number :: pystr
  email_address :: pystr
  linkedin :: "pystr option"
  personal_website :: "pystr option"

record Experience =
  role_title :: pystr
  company_name :: pystr
  start_date :: datetime
  end_date :: "datetime option"
  description :: "pystr list"
  is_volunteer :: bool

record Education =
  degree :: pystr
  major :: pystr
  university_name :: pystr
  city :: pystr
  country :: pystr
  start_date :: datetime
  end_date :: "datetime option"

record Project =
  project_name :: pystr
  description :: "pystr list"
  project_link :: "pystr option"

record Skill =
  skill_name :: pystr
  skill_type :: SkillType

record Certification =
  certification_name :: pystr
  issuing_organization :: pystr
  issue_date :: "datetime option"

record Language =
  language :: pystr
  proficiency_level :: LanguageProficiencyLevel

record Resume =
  personal_info :: PersonalInfo
  summary :: pystr
  educations :: "ref list"
  experiences :: "ref list option"
  skills :: "Skill list"
  certifications :: "Certification list option"
  languages :: "Language list"
  projects :: "ref list option"

record ChangeReason =
  field_or_location :: pystr
  reason :: pystr

text \<open>
  The seven \<open>...EnhancementOutput\<close> classes have the same two fields and differ in the type
  of \<open>enhanced\<close> only.
\<close>

record 'a SectionEnhancementOutput =
  enhanced :: 'a
  reasons :: "ChangeReason list"

type_synonym SummaryEnhancementOutput = "pystr SectionEnhancementOutput"
type_synonym ExperiencesEnhancementOutput = "ref list SectionEnhancementOutput"
type_synonym EducationsEnhancementOutput = "ref list SectionEnhancementOutput"
type_synonym SkillsEnhancementOutput = "Skill list SectionEnhancementOutput"
type_synonym CertificationsEnhancementOutput = "Certification list SectionEnhancementOutput"
type_synonym LanguagesEnhancementOutput = "Language list SectionEnhancementOutput"
type_synonym ProjectsEnhancementOutput = "ref list SectionEnhancementOutput"

record FullEnhancementOutput =
  summary :: "SummaryEnhancementOutput option"
  experiences :: "ExperiencesEnhancementOutput option"
  educations :: "EducationsEnhancementOutput option"
  skills :: "SkillsEnhancementOutput option"
  certifications :: "CertificationsEnhancementOutput option"
  languages :: "LanguagesEnhancementOutput option"
  projects :: "ProjectsEnhancementOutput option"

text \<open>\<open>FullEnhancementOutput()\<close>: every section absent.\<close>

definition FullEnhancementOutput_new :: FullEnhancementOutput where
  "FullEnhancementOutput_new =
     \<lparr>summary = None, experiences = None, educations = None, skills = None,
      certifications = None, languages = None, projects = None\<rparr>"

text \<open>The store: one table of objects for each mutable entry class.\<close>

record heap =
  experience_at :: "ref \<Rightarrow> Experience"
  education_at :: "ref \<Rightarrow> Education"
  project_at :: "ref \<Rightarrow> Project"

section \<open>Post-enhancement validation (utils/validation.py)\<close>

text \<open>
  The body of the loop of \<open>validate_experiences\<close> for the enhanced object \<open>ex\<close>
  (\<open>exp\<close> in the source; the parameter \<open>enhanced\<close> is \<open>enh\<close> below) and the original object \<open>orig\<close> (\<open>original[i]\<close>): four guarded assignments to it, in the
  order of the source, each reading both objects from the current store.
\<close>

definition validate_experience_at ::
  "(ref \<Rightarrow> Experience) \<Rightarrow> ref \<Rightarrow> ref \<Rightarrow> (ref \<Rightarrow> Experience)" where
  "validate_experience_at h ex orig =
     (let h1 = (if Experience.start_date (h ex) \<noteq> Experience.start_date (h orig)
                then h(ex := (h ex)\<lparr>Experience.start_date := Experience.start_date (h orig)\<rparr>)
                else h);
          h2 = (if Experience.end_date (h1 ex) \<noteq> Experience.end_date (h1 orig)
                then h1(ex := (h1 ex)\<lparr>Experience.end_date := Experience.end_date (h1 orig)\<rparr>)
                else h1);
          h3 = (if Experience.company_name (h2 ex) \<noteq> Experience.company_name (h2 orig)
                then h2(ex := (h2 ex)\<lparr>Experience.company_name := Experience.company_name (h2 orig)\<rparr>)
                else h2);
          h4 = (if role_title (h3 ex) \<noteq> role_title (h3 orig)
                then h3(ex := (h3 ex)\<lparr>role_title := role_title (h3 orig)\<rparr>)
                else h3)
      in h4)"

text \<open>\<open>for i, exp in enumerate(enhanced): if i >= len(original): break; ...\<close>\<close>

fun validate_experiences_loop ::
  "nat \<Rightarrow> ref list \<Rightarrow> ref list \<Rightarrow> (ref \<Rightarrow> Experience) \<Rightarrow> (ref \<Rightarrow> Experience)" where
  "validate_experiences_loop i [] original h = h"
| "validate_experiences_loop i (ex # rest) original h =
     (if i \<ge> length original then h
      else validate_experiences_loop (Suc i) rest original
             (validate_experience_at h ex (original ! i)))"

text \<open>
  The caller passes \<open>resume.experiences\<close>, which is \<open>Optional[List[Experience]]\<close>. With
  \<open>None\<close> the first evaluation of \<open>len(original)\<close> raises \<open>TypeError\<close>; an empty enhanced
  list never reaches it. The function returns the list it was given, its objects updated in
  place; the store is returned in either case.
\<close>

definition NoneType_has_no_len :: exn where
  "NoneType_has_no_len = TypeError (py ''object of type 'NoneType' has no len()'')"

definition validate_experiences ::
  "heap \<Rightarrow> ref list \<Rightarrow> ref list option \<Rightarrow> (exn + ref list) \<times> heap" where
  "validate_experiences st enh original =
     (case original of
        None \<Rightarrow> (if enh = [] then (Inr enh, st) else (Inl NoneType_has_no_len, st))
      | Some orig \<Rightarrow>
          (Inr enh,
           st\<lparr>experience_at := validate_experiences_loop 0 enh orig (experience_at st)\<rparr>))"

definition validate_education_at ::
  "(ref \<Rightarrow> Education) \<Rightarrow> ref \<Rightarrow> ref \<Rightarrow> (ref \<Rightarrow> Education)" where
  "validate_education_at h edu orig =
     (let h1 = (if Education.start_date (h edu) \<noteq> Education.start_date (h orig)
                then h(edu := (h edu)\<lparr>Education.start_date := Education.start_date (h orig)\<rparr>)
                else h);
          h2 = (if Education.end_date (h1 edu) \<noteq> Education.end_date (h1 orig)
                then h1(edu := (h1 edu)\<lparr>Education.end_date := Education.end_date (h1 orig)\<rparr>)
                else h1);
          h3 = (if university_name (h2 edu) \<noteq> university_name (h2 orig)
                then h2(edu := (h2 edu)\<lparr>university_name := university_name (h2 orig)\<rparr>)
                else h2);
          h4 = (if degree (h3 edu) \<noteq> degree (h3 orig)
                then h3(edu := (h3 edu)\<lparr>degree := degree (h3 orig)\<rparr>)
                else h3)
      in h4)"

fun validate_educations_loop ::
  "nat \<Rightarrow> ref list \<Rightarrow> ref list \<Rightarrow> (ref \<Rightarrow> Education) \<Rightarrow> (ref \<Rightarrow> Education)" where
  "validate_educations_loop i [] original h = h"
| "validate_educations_loop i (edu # rest) original h =
     (if i \<ge> length original then h
      else validate_educations_loop (Suc i) rest original
             (validate_education_at h edu (original ! i)))"

text \<open>\<open>resume.educations\<close> is a \<open>List[Education]\<close>, never \<open>None\<close>.\<close>

definition validate_educations :: "heap \<Rightarrow> ref list \<Rightarrow> ref list \<Rightarrow> ref list \<times> heap" where
  "validate_educations st enh original =
     (enh,
      st\<lparr>education_at := validate_educations_loop 0 enh original (education_at st)\<rparr>)"

text \<open>
  Projects: a name that is a URL is replaced by the original name; a link that is present,
  non-empty and not a URL is replaced by the original link.
\<close>

definition validate_project_at ::
  "(ref \<Rightarrow> Project) \<Rightarrow> ref \<Rightarrow> ref \<Rightarrow> (ref \<Rightarrow> Project)" where
  "validate_project_at h proj orig =
     (let h1 = (if startswith_url (project_name (h proj))
                then h(proj := (h proj)\<lparr>project_name := project_name (h orig)\<rparr>)
                else h);
          h2 = (if (case project_link (h1 proj) of
                      None \<Rightarrow> False
                    | Some l \<Rightarrow> l \<noteq> [] \<and> \<not> startswith_url l)
                then h1(proj := (h1 proj)\<lparr>project_link := project_link (h1 orig)\<rparr>)
                else h1)
      in h2)"

fun validate_projects_loop ::
  "nat \<Rightarrow> ref list \<Rightarrow> ref list \<Rightarrow> (ref \<Rightarrow> Project) \<Rightarrow> (ref \<Rightarrow> Project)" where
  "validate_projects_loop i [] original h = h"
| "validate_projects_loop i (proj # rest) original h =
     (if i \<ge> length original then h
      else validate_projects_loop (Suc i) rest original
             (validate_project_at h proj (original ! i)))"

definition validate_projects ::
  "heap \<Rightarrow> ref list \<Rightarrow> ref list option \<Rightarrow> (exn + ref list) \<times> heap" where
  "validate_projects st enh original =
     (case original of
        None \<Rightarrow> (if enh = [] then (Inr enh, st) else (Inl NoneType_has_no_len, st))
      | Some orig \<Rightarrow>
          (Inr enh,
           st\<lparr>project_at := validate_projects_loop 0 enh orig (project_at st)\<rparr>))"

section \<open>Merge stage (graph/nodes/format.py)\<close>

text \<open>
  \<open>_build_enhanced_resume\<close>: each section is taken from the enhancement output when it is
  present and from the original resume otherwise; experiences, educations and projects go
  through their validator first, in this order. An exception of a validator leaves the
  function at once, with the assignments made so far in the store.
\<close>

definition build_enhanced_resume ::
  "heap \<Rightarrow> Resume \<Rightarrow> FullEnhancementOutput \<Rightarrow> (exn + Resume) \<times> heap" where
  "build_enhanced_resume st resume full_output =
     (let summary' = (case FullEnhancementOutput.summary full_output of
                        Some s \<Rightarrow> enhanced s
                      | None \<Rightarrow> Resume.summary resume);
          (experiences', st1) =
            (case FullEnhancementOutput.experiences full_output of
               Some s \<Rightarrow>
                 (case validate_experiences st (enhanced s) (Resume.experiences resume) of
                    (Inl e, st') \<Rightarrow> (Inl e, st')
                  | (Inr l, st') \<Rightarrow> (Inr (Some l), st'))
             | None \<Rightarrow> (Inr (Resume.experiences resume), st))
      in case experiences' of
        Inl e \<Rightarrow> (Inl e, st1)
      | Inr experiences'' \<Rightarrow>
     (let (educations', st2) =
            (case FullEnhancementOutput.educations full_output of
               Some s \<Rightarrow> validate_educations st1 (enhanced s) (Resume.educations resume)
             | None \<Rightarrow> (Resume.educations resume, st1));
          skills' = (case FullEnhancementOutput.skills full_output of
                       Some s \<Rightarrow> enhanced s
                     | None \<Rightarrow> Resume.skills resume);
          certifications' = (case FullEnhancementOutput.certifications full_output of
                               Some s \<Rightarrow> Some (enhanced s)
                             | None \<Rightarrow> Resume.certifications resume);
          languages' = (case FullEnhancementOutput.languages full_output of
                          Some s \<Rightarrow> enhanced s
                        | None \<Rightarrow> Resume.languages resume);
          (projects', st3) =
            (case FullEnhancementOutput.projects full_output of
               Some s \<Rightarrow>
                 (case validate_projects st2 (enhanced s) (Resume.projects resume) of
                    (Inl e, st') \<Rightarrow> (Inl e, st')
                  | (Inr l, st') \<Rightarrow> (Inr (Some l), st'))
             | None \<Rightarrow> (Inr (Resume.projects resume), st2))
      in case projects' of
        Inl e \<Rightarrow> (Inl e, st3)
      | Inr projects'' \<Rightarrow>
          (Inr \<lparr>personal_info = personal_info resume,
                summary = summary',
                educations = educations',
                experiences = experiences'',
                skills = skills',
                certifications = certifications',
                languages = languages',
                projects = projects''\<rparr>,
           st3)))"


section \<open>Workflow state and the model gateway\<close>

text \<open>
  \<open>MappingResult\<close> as an object a model call can hand back: the list fields may be \<open>None\<close>,
  which is what the normalisation below replaces.
\<close>

record MappingResult =
  matched_skills :: "pystr list option"
  matched_requirements :: "pystr list option"
  gaps :: "pystr list option"
  match_score :: int

text \<open>
  The dictionary \<open>enhance_sectional_node\<close> returns; a \<open>dict\<close> is an association list in
  insertion order. Of \<open>sectional_metadata\<close> the counts and the two lists
  are kept; \<open>total_time_ms\<close> and \<open>timestamp\<close> are rounded wall-clock values.
\<close>

record SectionalMetadata =
  mode :: string
  total_sections :: nat
  sections_succeeded :: nat
  sections_failed :: nat
  succeeded_list :: "string list"
  failed_list :: "string list"

record SectionalResult =
  full_enhancement_output :: FullEnhancementOutput
  section_errors :: "(string \<times> pystr) list"
  section_timings :: "(string \<times> real) list"
  sectional_metadata :: SectionalMetadata

text \<open>
  \<open>ResumeEnhancerState\<close> after \<open>normalize_state\<close>, with the fields the nodes read and
  write; the diagnostic dictionaries of the state are products of the nodes below.
\<close>

record ResumeEnhancerState =
  resume :: "Resume option"
  job_description :: "JobDescription option"
  mapping_result :: "MappingResult option"
  full_enhancement_output :: "FullEnhancementOutput option"
  enhanced_resume :: "Resume option"
  report_summary :: "pystr option"
  feedback_message :: "pystr option"
  mode :: "pystr option"

text \<open>
  What a call of the chat model can return. A message carries \<open>content\<close>, which is text or
  not a \<open>str\<close> at all; the structured calls return an instance of the requested class or,
  when the provider misbehaves, an object of some other type, of which only the type name
  is kept.
\<close>

datatype content = StrContent pystr | NonStrContent

datatype llm_value =
    MessageV content
  | MappingResultV MappingResult
  | SummaryV SummaryEnhancementOutput
  | ExperiencesV ExperiencesEnhancementOutput
  | EducationsV EducationsEnhancementOutput
  | SkillsV SkillsEnhancementOutput
  | CertificationsV CertificationsEnhancementOutput
  | LanguagesV LanguagesEnhancementOutput
  | ProjectsV ProjectsEnhancementOutput
  | OtherV pystr

text \<open>\<open>getattr(result, "content", None)\<close> followed by \<open>isinstance(message_text, str)\<close>.\<close>

fun str_content :: "llm_value \<Rightarrow> pystr option" where
  "str_content (MessageV (StrContent s)) = Some s"
| "str_content _ = None"

text \<open>
  A chunk of a token stream, in the three shapes \<open>stream_section_enhancement\<close> reads: an
  object with a \<open>content\<close> attribute (text or \<open>None\<close>), a plain string, a dictionary with
  optional \<open>content\<close> and \<open>text\<close> entries; anything else carries no text.
\<close>

datatype chunk =
    ContentChunk "pystr option"
  | StrChunk pystr
  | DictChunk "pystr option" "pystr option"
  | OtherChunk

text \<open>
  The chat model is an oracle indexed by the number of the call: \<open>invoke n\<close> is the outcome
  of the \<open>n\<close>-th call when it is an \<open>invoke\<close>/\<open>ainvoke\<close> (plain or with structured output),
  \<open>astream n\<close> the chunks it delivers when it is an \<open>astream\<close>, with the exception that ends
  the stream early, if any. Prompts are pure string formatting of the inputs and are not
  modelled. The clock is an oracle of the same kind: \<open>time n\<close> is the \<open>n\<close>-th reading of
  \<open>time.time()\<close>, a real number of seconds. The \<open>world\<close> counts the calls and readings made
  and records the pauses taken (\<open>time.sleep\<close>, \<open>asyncio.sleep\<close>), in seconds.
\<close>

record llm =
  invoke :: "nat \<Rightarrow> exn + llm_value"
  astream :: "nat \<Rightarrow> chunk list \<times> exn option"

record world =
  llm_calls :: nat
  clock_reads :: nat
  slept :: "nat list"

definition call_llm :: "llm \<Rightarrow> world \<Rightarrow> (exn + llm_value) \<times> world" where
  "call_llm m w = (invoke m (llm_calls w), w\<lparr>llm_calls := Suc (llm_calls w)\<rparr>)"

definition read_clock :: "(nat \<Rightarrow> real) \<Rightarrow> world \<Rightarrow> real \<times> world" where
  "read_clock time w = (time (clock_reads w), w\<lparr>clock_reads := Suc (clock_reads w)\<rparr>)"

definition sleep :: "nat \<Rightarrow> world \<Rightarrow> world" where
  "sleep seconds w = w\<lparr>slept := slept w @ [seconds]\<rparr>"

section \<open>Mapping stage (graph/nodes/mapping.py)\<close>

definition validate_and_normalize_mapping_result :: "MappingResult \<Rightarrow> exn + MappingResult" where
  "validate_and_normalize_mapping_result result =
     (if \<not> (1 \<le> match_score result \<and> match_score result \<le> 10)
      then Inl (ValueError (py ''mapping_node: match_score must be between 1 and 10, got ''
                            @ str_int (match_score result)))
      else Inr \<lparr>matched_skills =
                   Some (case matched_skills result of Some l \<Rightarrow> l | None \<Rightarrow> []),
                matched_requirements =
                   Some (case matched_requirements result of Some l \<Rightarrow> l | None \<Rightarrow> []),
                gaps = Some (case gaps result of Some l \<Rightarrow> l | None \<Rightarrow> []),
                match_score = match_score result\<rparr>)"

text \<open>
  \<open>mapping_node\<close>: one structured call; its exception is logged and raised again, a result
  of another type is a \<open>ValueError\<close>, and the result is validated and normalised.
\<close>

definition mapping_node ::
  "ResumeEnhancerState \<Rightarrow> llm option \<Rightarrow> world \<Rightarrow> (exn + MappingResult) \<times> world" where
  "mapping_node state m w =
     (if resume state = None then (Inl (ValueError (py ''mapping_node requires state.resume'')), w)
      else if job_description state = None
      then (Inl (ValueError (py ''mapping_node requires state.job_description'')), w)
      else case m of
        None \<Rightarrow> (Inl (ValueError (py ''mapping_node requires a non-None llm instance'')), w)
      | Some model \<Rightarrow>
          (case call_llm model w of
             (Inl e, w') \<Rightarrow> (Inl e, w')
           | (Inr (MappingResultV result), w') \<Rightarrow>
               (validate_and_normalize_mapping_result result, w')
           | (Inr _, w') \<Rightarrow>
               (Inl (ValueError (py ''mapping_node: LLM must return MappingResult'')), w')))"

section \<open>Routing gate (graph/gate.py)\<close>

text \<open>
  \<open>route_after_mapping\<close>; the threshold is \<open>get_settings().SCORE_THRESHOLD\<close>, an \<open>int\<close> of
  the configuration.
\<close>

definition route_after_mapping :: "ResumeEnhancerState \<Rightarrow> int \<Rightarrow> exn + string" where
  "route_after_mapping state threshold =
     (case mapping_result state of
        None \<Rightarrow> Inl (ValueError (py ''route_after_mapping requires state.mapping_result''))
      | Some mr \<Rightarrow>
          (let score = match_score mr
           in if score < threshold then Inr ''feedback'' else Inr ''enhance''))"

section \<open>Feedback stage (graph/nodes/feedback.py)\<close>

text \<open>
  \<open>feedback_node\<close>: one call; every exception inside the \<open>try\<close> is logged and raised again.
  The message text is returned as the model gave it (not stripped).
\<close>

definition feedback_node ::
  "ResumeEnhancerState \<Rightarrow> llm option \<Rightarrow> int \<Rightarrow> world \<Rightarrow> (exn + pystr) \<times> world" where
  "feedback_node state m threshold w =
     (case mapping_result state of
        None \<Rightarrow> (Inl (ValueError (py ''feedback_node requires state.mapping_result'')), w)
      | Some mr \<Rightarrow>
          (case m of
             None \<Rightarrow> (Inl (ValueError (py ''feedback_node requires a non-None llm instance'')), w)
           | Some model \<Rightarrow>
               (case call_llm model w of
                  (Inl e, w') \<Rightarrow> (Inl e, w')
                | (Inr result, w') \<Rightarrow>
                    (case str_content result of
                       None \<Rightarrow>
                         (Inl (ValueError
                                 (py ''feedback_node: LLM must return non-empty text content'')), w')
                     | Some message_text \<Rightarrow>
                         if strip message_text = []
                         then (Inl (ValueError
                                 (py ''feedback_node: LLM must return non-empty text content'')), w')
                         else (Inr message_text, w')))))"

section \<open>Report stage (graph/nodes/report.py)\<close>

definition collect_reasons :: "FullEnhancementOutput \<Rightarrow> ChangeReason list" where
  "collect_reasons full_output =
     (case FullEnhancementOutput.summary full_output of Some s \<Rightarrow> reasons s | None \<Rightarrow> []) @
     (case FullEnhancementOutput.experiences full_output of Some s \<Rightarrow> reasons s | None \<Rightarrow> []) @
     (case FullEnhancementOutput.educations full_output of Some s \<Rightarrow> reasons s | None \<Rightarrow> []) @
     (case FullEnhancementOutput.skills full_output of Some s \<Rightarrow> reasons s | None \<Rightarrow> []) @
     (case FullEnhancementOutput.certifications full_output of Some s \<Rightarrow> reasons s | None \<Rightarrow> []) @
     (case FullEnhancementOutput.languages full_output of Some s \<Rightarrow> reasons s | None \<Rightarrow> []) @
     (case FullEnhancementOutput.projects full_output of Some s \<Rightarrow> reasons s | None \<Rightarrow> [])"

text \<open>
  \<open>report_node\<close>: a missing enhancement output is raised; the model is called once, and only
  when there is a model and at least one reason. The call and the reading of its result
  sit in a \<open>try\<close> whose handler logs the exception and goes on, so the summary stays \<open>None\<close>.
\<close>

definition report_node ::
  "ResumeEnhancerState \<Rightarrow> llm option \<Rightarrow> world \<Rightarrow> (exn + pystr option) \<times> world" where
  "report_node state m w =
     (case full_enhancement_output state of
        None \<Rightarrow> (Inl (ValueError (py ''report_node requires state.full_enhancement_output'')), w)
      | Some full_output \<Rightarrow>
          (let reasons' = collect_reasons full_output
           in case m of
                None \<Rightarrow> (Inr None, w)
              | Some model \<Rightarrow>
                  if reasons' = [] then (Inr None, w)
                  else (case call_llm model w of
                          (Inl e, w') \<Rightarrow> (Inr None, w')
                        | (Inr result, w') \<Rightarrow>
                            (case str_content result of
                               None \<Rightarrow> (Inr None, w')
                             | Some message_text \<Rightarrow>
                                 if strip message_text \<noteq> []
                                 then (Inr (Some (strip message_text)), w')
                                 else (Inr None, w')))))"


section \<open>Format node (graph/nodes/format.py)\<close>

definition format_node :: "ResumeEnhancerState \<Rightarrow> heap \<Rightarrow> (exn + Resume) \<times> heap" where
  "format_node state st =
     (case resume state of
        None \<Rightarrow> (Inl (ValueError (py ''format_node requires state.resume'')), st)
      | Some r \<Rightarrow>
          (case full_enhancement_output state of
             None \<Rightarrow>
               (Inl (ValueError (py ''format_node requires state.full_enhancement_output'')), st)
           | Some full_output \<Rightarrow> build_enhanced_resume st r full_output))"

section \<open>Sectional enhancement (graph/nodes/enhance_sectional.py)\<close>

text \<open>The seven output classes as class objects, for \<open>isinstance\<close> and \<open>__name__\<close>.\<close>

datatype output_class =
    SummaryEnhancementOutput
  | ExperiencesEnhancementOutput
  | EducationsEnhancementOutput
  | SkillsEnhancementOutput
  | CertificationsEnhancementOutput
  | LanguagesEnhancementOutput
  | ProjectsEnhancementOutput

fun isinstance :: "llm_value \<Rightarrow> output_class \<Rightarrow> bool" where
  "isinstance (SummaryV _) SummaryEnhancementOutput = True"
| "isinstance (ExperiencesV _) ExperiencesEnhancementOutput = True"
| "isinstance (EducationsV _) EducationsEnhancementOutput = True"
| "isinstance (SkillsV _) SkillsEnhancementOutput = True"
| "isinstance (CertificationsV _) CertificationsEnhancementOutput = True"
| "isinstance (LanguagesV _) LanguagesEnhancementOutput = True"
| "isinstance (ProjectsV _) ProjectsEnhancementOutput = True"
| "isinstance _ _ = False"

fun class_name :: "output_class \<Rightarrow> pystr" where
  "class_name SummaryEnhancementOutput = py ''SummaryEnhancementOutput''"
| "class_name ExperiencesEnhancementOutput = py ''ExperiencesEnhancementOutput''"
| "class_name EducationsEnhancementOutput = py ''EducationsEnhancementOutput''"
| "class_name SkillsEnhancementOutput = py ''SkillsEnhancementOutput''"
| "class_name CertificationsEnhancementOutput = py ''CertificationsEnhancementOutput''"
| "class_name LanguagesEnhancementOutput = py ''LanguagesEnhancementOutput''"
| "class_name ProjectsEnhancementOutput = py ''ProjectsEnhancementOutput''"

fun type_name :: "llm_value \<Rightarrow> pystr" where
  "type_name (MessageV _) = py ''AIMessage''"
| "type_name (MappingResultV _) = py ''MappingResult''"
| "type_name (SummaryV _) = class_name SummaryEnhancementOutput"
| "type_name (ExperiencesV _) = class_name ExperiencesEnhancementOutput"
| "type_name (EducationsV _) = class_name EducationsEnhancementOutput"
| "type_name (SkillsV _) = class_name SkillsEnhancementOutput"
| "type_name (CertificationsV _) = class_name CertificationsEnhancementOutput"
| "type_name (LanguagesV _) = class_name LanguagesEnhancementOutput"
| "type_name (ProjectsV _) = class_name ProjectsEnhancementOutput"
| "type_name (OtherV n) = n"

definition SECTIONAL_SECTIONS :: "(string \<times> output_class) list" where
  "SECTIONAL_SECTIONS =
     [(''summary'', SummaryEnhancementOutput),
      (''experiences'', ExperiencesEnhancementOutput),
      (''educations'', EducationsEnhancementOutput),
      (''skills'', SkillsEnhancementOutput),
      (''certifications'', CertificationsEnhancementOutput),
      (''languages'', LanguagesEnhancementOutput),
      (''projects'', ProjectsEnhancementOutput)]"

definition SECTIONAL_MAX_RETRIES :: nat where
  "SECTIONAL_MAX_RETRIES = 2"

definition SECTIONAL_RETRY_DELAYS :: "nat list" where
  "SECTIONAL_RETRY_DELAYS = [1, 3]"

text \<open>
  \<open>setattr(full_output, section_name, result)\<close>. Every section name is paired with its own
  class and the result has passed \<open>isinstance\<close>, so the field and the value always agree; the
  remaining combinations do not occur and leave the record as it is.
\<close>

definition setattr :: "FullEnhancementOutput \<Rightarrow> string \<Rightarrow> llm_value \<Rightarrow> FullEnhancementOutput" where
  "setattr full_output section_name result =
     (case result of
        SummaryV s \<Rightarrow>
          if section_name = ''summary''
          then full_output\<lparr>FullEnhancementOutput.summary := Some s\<rparr> else full_output
      | ExperiencesV s \<Rightarrow>
          if section_name = ''experiences''
          then full_output\<lparr>FullEnhancementOutput.experiences := Some s\<rparr> else full_output
      | EducationsV s \<Rightarrow>
          if section_name = ''educations''
          then full_output\<lparr>FullEnhancementOutput.educations := Some s\<rparr> else full_output
      | SkillsV s \<Rightarrow>
          if section_name = ''skills''
          then full_output\<lparr>FullEnhancementOutput.skills := Some s\<rparr> else full_output
      | CertificationsV s \<Rightarrow>
          if section_name = ''certifications''
          then full_output\<lparr>FullEnhancementOutput.certifications := Some s\<rparr> else full_output
      | LanguagesV s \<Rightarrow>
          if section_name = ''languages''
          then full_output\<lparr>FullEnhancementOutput.languages := Some s\<rparr> else full_output
      | ProjectsV s \<Rightarrow>
          if section_name = ''projects''
          then full_output\<lparr>FullEnhancementOutput.projects := Some s\<rparr> else full_output
      | _ \<Rightarrow> full_output)"

text \<open>\<open>getattr(full_output, section_name) is not None\<close>.\<close>

definition section_present :: "FullEnhancementOutput \<Rightarrow> string \<Rightarrow> bool" where
  "section_present full_output section_name \<longleftrightarrow>
     (section_name = ''summary'' \<and> FullEnhancementOutput.summary full_output \<noteq> None) \<or>
     (section_name = ''experiences'' \<and> FullEnhancementOutput.experiences full_output \<noteq> None) \<or>
     (section_name = ''educations'' \<and> FullEnhancementOutput.educations full_output \<noteq> None) \<or>
     (section_name = ''skills'' \<and> FullEnhancementOutput.skills full_output \<noteq> None) \<or>
     (section_name = ''certifications'' \<and> FullEnhancementOutput.certifications full_output \<noteq> None) \<or>
     (section_name = ''languages'' \<and> FullEnhancementOutput.languages full_output \<noteq> None) \<or>
     (section_name = ''projects'' \<and> FullEnhancementOutput.projects full_output \<noteq> None)"

text \<open>
  The retry loop of \<open>_enhance_single_section\<close>, over the attempt numbers still to run. A
  call that raises and a call that returns an object of another class both count as a
  failed attempt; a pause follows every failed attempt but the last. A success returns
  \<open>(result, None)\<close>, exhaustion returns \<open>(None, last_error)\<close>.
\<close>

fun enhance_single_section_attempts ::
  "llm \<Rightarrow> output_class \<Rightarrow> nat list \<Rightarrow> pystr option \<Rightarrow> world
     \<Rightarrow> (llm_value option \<times> pystr option) \<times> world" where
  "enhance_single_section_attempts m output_class [] last_error w = ((None, last_error), w)"
| "enhance_single_section_attempts m output_class (attempt # rest) last_error w =
     (let (outcome, w1) = call_llm m w;
          checked = (case outcome of
                       Inl e \<Rightarrow> Inl e
                     | Inr result \<Rightarrow>
                         if \<not> isinstance result output_class
                         then Inl (ValueError (py ''LLM returned '' @ type_name result
                                               @ py '' instead of '' @ class_name output_class))
                         else Inr result)
      in case checked of
           Inr result \<Rightarrow> ((Some result, None), w1)
         | Inl e \<Rightarrow>
             enhance_single_section_attempts m output_class rest (Some (str_exn e))
               (if attempt < SECTIONAL_MAX_RETRIES - 1
                then sleep (SECTIONAL_RETRY_DELAYS ! attempt) w1 else w1))"

definition enhance_single_section ::
  "string \<Rightarrow> output_class \<Rightarrow> llm \<Rightarrow> world \<Rightarrow> (llm_value option \<times> pystr option) \<times> world" where
  "enhance_single_section section_name output_class m w =
     enhance_single_section_attempts m output_class [0..<SECTIONAL_MAX_RETRIES] None w"

text \<open>The accumulators of the loop of \<open>enhance_sectional_node\<close> (local variables).\<close>

record sectional_acc =
  acc_full_output :: FullEnhancementOutput
  acc_section_errors :: "(string \<times> pystr) list"
  acc_section_timings :: "(string \<times> real) list"
  acc_sections_succeeded :: "string list"
  acc_sections_failed :: "string list"

text \<open>\<open>error or "Unknown error"\<close>\<close>

definition or_unknown_error :: "pystr option \<Rightarrow> pystr" where
  "or_unknown_error error =
     (case error of None \<Rightarrow> py ''Unknown error''
      | Some e \<Rightarrow> if e = [] then py ''Unknown error'' else e)"

fun enhance_sectional_loop ::
  "llm \<Rightarrow> (nat \<Rightarrow> real) \<Rightarrow> (string \<times> output_class) list \<Rightarrow> sectional_acc \<Rightarrow> world
     \<Rightarrow> sectional_acc \<times> world" where
  "enhance_sectional_loop m time [] acc w = (acc, w)"
| "enhance_sectional_loop m time ((section_name, output_class) # rest) acc w =
     (let (section_start, w1) = read_clock time w;
          ((result, error), w2) = enhance_single_section section_name output_class m w1;
          (now, w3) = read_clock time w2;
          section_elapsed = (now - section_start) * 1000;
          acc1 = acc\<lparr>acc_section_timings :=
                       AList.update section_name section_elapsed (acc_section_timings acc)\<rparr>;
          acc2 = (case result of
                    Some r \<Rightarrow>
                      acc1\<lparr>acc_full_output := setattr (acc_full_output acc1) section_name r,
                           acc_sections_succeeded :=
                             acc_sections_succeeded acc1 @ [section_name]\<rparr>
                  | None \<Rightarrow>
                      acc1\<lparr>acc_section_errors :=
                             AList.update section_name (or_unknown_error error)
                               (acc_section_errors acc1),
                           acc_sections_failed := acc_sections_failed acc1 @ [section_name]\<rparr>)
      in enhance_sectional_loop m time rest acc2 w3)"

definition enhance_sectional_node ::
  "ResumeEnhancerState \<Rightarrow> llm option \<Rightarrow> (nat \<Rightarrow> real) \<Rightarrow> world
     \<Rightarrow> (exn + SectionalResult) \<times> world" where
  "enhance_sectional_node state m time w =
     (let (start_time, w0) = read_clock time w
      in if resume state = None
         then (Inl (ValueError (py ''enhance_sectional_node requires state.resume'')), w0)
         else if mapping_result state = None
         then (Inl (ValueError (py ''enhance_sectional_node requires state.mapping_result'')), w0)
         else case m of
           None \<Rightarrow>
             (Inl (ValueError (py ''enhance_sectional_node requires a non-None llm instance'')), w0)
         | Some model \<Rightarrow>
             (let (acc, w1) =
                    enhance_sectional_loop model time SECTIONAL_SECTIONS
                      \<lparr>acc_full_output = FullEnhancementOutput_new, acc_section_errors = [],
                       acc_section_timings = [], acc_sections_succeeded = [],
                       acc_sections_failed = []\<rparr> w0;
                  (end_time, w2) = read_clock time w1
              in (Inr \<lparr>SectionalResult.full_enhancement_output = acc_full_output acc,
                       section_errors = acc_section_errors acc,
                       section_timings = acc_section_timings acc,
                       sectional_metadata =
                         \<lparr>SectionalMetadata.mode = ''sectional'',
                          total_sections = length SECTIONAL_SECTIONS,
                          sections_succeeded = length (acc_sections_succeeded acc),
                          sections_failed = length (acc_sections_failed acc),
                          succeeded_list = acc_sections_succeeded acc,
                          failed_list = acc_sections_failed acc\<rparr>\<rparr>,
                  w2)))"

section \<open>Streaming enhancement (graph/nodes/enhance_streaming.py)\<close>

















section \<open>Notions used in the statements\<close>



definition list_or_empty :: "'a list option \<Rightarrow> 'a list" where
  "list_or_empty l = (case l of Some xs \<Rightarrow> xs | None \<Rightarrow> [])"

definition present_sections :: "FullEnhancementOutput \<Rightarrow> string set" where
  "present_sections full_output = {n. section_present full_output n}"








section \<open>Example inputs\<close>

text \<open>
  A small resume whose entries are the objects with reference 0, and an enhancement of
  every section whose entries are the objects with reference 1; the enhanced objects differ
  from the originals in every protected field.
\<close>

definition ex_personal_info :: PersonalInfo where
  "ex_personal_info =
     \<lparr>full_name = py ''Ada Lovelace'', phone_number = py ''555-0100'',
      email_address = py ''ada@example.org'', linkedin = None, personal_website = None\<rparr>"

definition ex_experience_original :: Experience where
  "ex_experience_original =
     \<lparr>role_title = py ''Engineer'', Experience.company_name = py ''Acme'',
      Experience.start_date = 100, Experience.end_date = Some 200,
      Experience.description = [py ''Built things''], is_volunteer = False\<rparr>"

definition ex_experience_enhanced :: Experience where
  "ex_experience_enhanced =
     \<lparr>role_title = py ''Lead Engineer'', Experience.company_name = py ''Acme Corp'',
      Experience.start_date = 90, Experience.end_date = None,
      Experience.description = [py ''Led the build''], is_volunteer = False\<rparr>"

definition ex_education_original :: Education where
  "ex_education_original =
     \<lparr>degree = py ''BSc'', major = py ''Mathematics'', university_name = py ''London'',
      city = py ''London'', country = py ''UK'', start_date = 10, end_date = Some 40\<rparr>"

definition ex_education_enhanced :: Education where
  "ex_education_enhanced =
     \<lparr>degree = py ''MSc'', major = py ''Applied Mathematics'', university_name = py ''Oxford'',
      city = py ''London'', country = py ''UK'', start_date = 11, end_date = None\<rparr>"

definition ex_project_original :: Project where
  "ex_project_original =
     \<lparr>project_name = py ''Engine'', description = [py ''Notes''],
      project_link = Some (py ''https://example.org/engine'')\<rparr>"

definition ex_project_enhanced :: Project where
  "ex_project_enhanced =
     \<lparr>project_name = py ''https://example.org/x'', description = [py ''Annotated notes''],
      project_link = Some (py ''see website'')\<rparr>"

definition ex_heap :: heap where
  "ex_heap =
     \<lparr>experience_at = (\<lambda>_. ex_experience_original)(1 := ex_experience_enhanced),
      education_at = (\<lambda>_. ex_education_original)(1 := ex_education_enhanced),
      project_at = (\<lambda>_. ex_project_original)(1 := ex_project_enhanced)\<rparr>"




definition ex_resume :: Resume where
  "ex_resume =
     \<lparr>personal_info = ex_personal_info, Resume.summary = py ''Engineer'',
      Resume.educations = [0], Resume.experiences = Some [0],
      Resume.skills = [\<lparr>skill_name = py ''Python'', skill_type = TECHNICAL\<rparr>],
      Resume.certifications = None,
      Resume.languages = [\<lparr>language = py ''English'', proficiency_level = NATIVE\<rparr>],
      Resume.projects = Some [0]\<rparr>"

definition ex_reason :: ChangeReason where
  "ex_reason = \<lparr>field_or_location = py ''summary'', reason = py ''clearer''\<rparr>"

definition ex_outputs :: "llm_value list" where
  "ex_outputs =
     [SummaryV \<lparr>enhanced = py ''Lead engineer'', reasons = [ex_reason]\<rparr>,
      ExperiencesV \<lparr>enhanced = [1], reasons = []\<rparr>,
      EducationsV \<lparr>enhanced = [1], reasons = []\<rparr>,
      SkillsV \<lparr>enhanced = [\<lparr>skill_name = py ''Python 3'', skill_type = TECHNICAL\<rparr>],
               reasons = []\<rparr>,
      CertificationsV \<lparr>enhanced = [], reasons = []\<rparr>,
      LanguagesV \<lparr>enhanced = [\<lparr>language = py ''English'', proficiency_level = C2\<rparr>],
                  reasons = []\<rparr>,
      ProjectsV \<lparr>enhanced = [1], reasons = []\<rparr>]"

definition ex_full_output :: FullEnhancementOutput where
  "ex_full_output =
     \<lparr>summary = Some \<lparr>enhanced = py ''Lead engineer'', reasons = [ex_reason]\<rparr>,
      experiences = Some \<lparr>enhanced = [1], reasons = []\<rparr>,
      educations = Some \<lparr>enhanced = [1], reasons = []\<rparr>,
      skills = Some \<lparr>enhanced = [\<lparr>skill_name = py ''Python 3'', skill_type = TECHNICAL\<rparr>],
                     reasons = []\<rparr>,
      certifications = Some \<lparr>enhanced = [], reasons = []\<rparr>,
      languages = Some \<lparr>enhanced = [\<lparr>language = py ''English'', proficiency_level = C2\<rparr>],
                        reasons = []\<rparr>,
      projects = Some \<lparr>enhanced = [1], reasons = []\<rparr>\<rparr>"

definition ex_job_description :: JobDescription where
  "ex_job_description =
     \<lparr>job_title = py ''Engineer'', company_name = None, responsibilities = [],
      requirements = [], required_skills = [py ''Python''], preferred_skills = [],
      seniority_level = py ''mid'', soft_skills = Some []\<rparr>"

definition ex_mapping_result :: MappingResult where
  "ex_mapping_result =
     \<lparr>matched_skills = Some [py ''Python''], matched_requirements = Some [], gaps = Some [],
      match_score = 8\<rparr>"

definition ex_state :: ResumeEnhancerState where
  "ex_state =
     \<lparr>resume = Some ex_resume, job_description = Some ex_job_description,
      mapping_result = Some ex_mapping_result, full_enhancement_output = Some ex_full_output,
      enhanced_resume = None, report_summary = None, feedback_message = None, mode = None\<rparr>"

text \<open>
  A model that answers its calls from a list of outcomes and its streams from a list of
  streams, and times out on every later call; a clock that advances by 0.3 seconds from
  one reading to the next; a world in which nothing has happened yet.
\<close>

definition llm_of :: "(exn + llm_value) list \<Rightarrow> (chunk list \<times> exn option) list \<Rightarrow> llm" where
  "llm_of responses streams =
     \<lparr>invoke = (\<lambda>n. if n < length responses then responses ! n
                     else Inl (OtherError (py ''timeout''))),
      astream = (\<lambda>n. if n < length streams then streams ! n
                      else ([], Some (OtherError (py ''timeout''))))\<rparr>"

definition ex_time :: "nat \<Rightarrow> real" where
  "ex_time n = real n * 3 / 10"

definition ex_world :: world where
  "ex_world = \<lparr>llm_calls = 0, clock_reads = 0, slept = []\<rparr>"

text \<open>
  The sectional run in which the two calls for the skills section hit a rate limit and
  every other section succeeds at once, on a resume that has no experiences list.
\<close>

definition skills_fail_llm :: llm where
  "skills_fail_llm =
     llm_of (map Inr (take 3 ex_outputs)
             @ [Inl (OtherError (py ''rate limit'')), Inl (OtherError (py ''rate limit''))]
             @ map Inr (drop 4 ex_outputs)) []"

definition no_experiences_state :: ResumeEnhancerState where
  "no_experiences_state = ex_state\<lparr>resume := Some (ex_resume\<lparr>Resume.experiences := None\<rparr>)\<rparr>"






text \<open>A model whose every call fails, and one that answers with a blank message.\<close>

definition failing_llm :: llm where
  "failing_llm = llm_of [] []"

definition blank_llm :: llm where
  "blank_llm = llm_of [Inr (MessageV (StrContent (py ''  '')))] []"

section \<open>Validation reverts the protected fields\<close>














section \<open>The merge stage\<close>












text \<open>
  Claim C6. Merging a resume \<open>cv\<close> with an enhancement output in which all seven sections are
  absent gives back the resume itself, and leaves the store as it was.
\<close>

theorem merge_with_empty_output_is_identity:
  "build_enhanced_resume st cv FullEnhancementOutput_new = (Inr cv, st)"
  by (simp add: build_enhanced_resume_def FullEnhancementOutput_new_def)




section \<open>The routing gate\<close>

text \<open>
  Claim C3. For every score \<open>S\<close> and threshold \<open>T\<close> the gate answers \<open>feedback\<close> exactly
  when \<open>S < T\<close> and \<open>enhance\<close> otherwise; with \<open>S = T\<close> it answers \<open>enhance\<close>.
\<close>

theorem route_after_mapping_threshold:
  "(route_after_mapping (state\<lparr>mapping_result := Some (mr\<lparr>match_score := S\<rparr>)\<rparr>) T
      = Inr ''feedback'' \<longleftrightarrow> S < T) \<and>
   (route_after_mapping (state\<lparr>mapping_result := Some (mr\<lparr>match_score := S\<rparr>)\<rparr>) T
      = Inr ''enhance'' \<longleftrightarrow> \<not> S < T) \<and>
   route_after_mapping (state\<lparr>mapping_result := Some (mr\<lparr>match_score := T\<rparr>)\<rparr>) T
      = Inr ''enhance''"
  by (simp add: route_after_mapping_def)

theorem route_after_mapping_threshold_witness:
  "route_after_mapping (ex_state\<lparr>mapping_result := Some (ex_mapping_result\<lparr>match_score := 6\<rparr>)\<rparr>) 7
     = Inr ''feedback'' \<and>
   route_after_mapping (ex_state\<lparr>mapping_result := Some (ex_mapping_result\<lparr>match_score := 7\<rparr>)\<rparr>) 7
     = Inr ''enhance''"
  using route_after_mapping_threshold
          [where state = ex_state and mr = ex_mapping_result and S = 6 and T = 7]
        route_after_mapping_threshold
          [where state = ex_state and mr = ex_mapping_result and S = 7 and T = 7]
  by simp

section \<open>The mapping stage\<close>

text \<open>
  Claim C4. When the model returns a \<open>MappingResult\<close>, a score outside 1..10 makes the
  mapping stage raise the \<open>ValueError\<close> of the range check (the score is neither clamped
  nor replaced); a score inside the range makes it return a \<open>MappingResult\<close> with the same
  score in which every list is the list the model gave, or the empty list where the model
  gave \<open>None\<close>.
\<close>

theorem mapping_score_checked_and_lists_normalized:
  assumes "resume state \<noteq> None" and "job_description state \<noteq> None"
      and "invoke model (llm_calls w) = Inr (MappingResultV r)"
  shows "(match_score r < 1 \<or> 10 < match_score r \<longrightarrow>
            validate_and_normalize_mapping_result r =
              Inl (ValueError (py ''mapping_node: match_score must be between 1 and 10, got ''
                               @ str_int (match_score r))) \<and>
            fst (mapping_node state (Some model) w) = validate_and_normalize_mapping_result r) \<and>
         (1 \<le> match_score r \<and> match_score r \<le> 10 \<longrightarrow>
            (\<exists>r'. fst (mapping_node state (Some model) w) = Inr r' \<and>
                  validate_and_normalize_mapping_result r = Inr r' \<and>
                  match_score r' = match_score r \<and>
                  matched_skills r' = Some (list_or_empty (matched_skills r)) \<and>
                  matched_requirements r' = Some (list_or_empty (matched_requirements r)) \<and>
                  gaps r' = Some (list_or_empty (gaps r))))"
  using assms
  by (auto simp: mapping_node_def call_llm_def validate_and_normalize_mapping_result_def
        list_or_empty_def)

theorem mapping_score_checked_and_lists_normalized_witness:
  "resume ex_state \<noteq> None \<and> job_description ex_state \<noteq> None \<and>
   invoke (llm_of [Inr (MappingResultV (ex_mapping_result\<lparr>match_score := 11\<rparr>))] [])
     (llm_calls ex_world) = Inr (MappingResultV (ex_mapping_result\<lparr>match_score := 11\<rparr>)) \<and>
   (\<exists>msg. fst (mapping_node ex_state
              (Some (llm_of [Inr (MappingResultV (ex_mapping_result\<lparr>match_score := 11\<rparr>))] []))
              ex_world) = Inl (ValueError msg)) \<and>
   invoke (llm_of [Inr (MappingResultV (ex_mapping_result\<lparr>gaps := None\<rparr>))] [])
     (llm_calls ex_world) = Inr (MappingResultV (ex_mapping_result\<lparr>gaps := None\<rparr>)) \<and>
   fst (mapping_node ex_state
          (Some (llm_of [Inr (MappingResultV (ex_mapping_result\<lparr>gaps := None\<rparr>))] []))
          ex_world) = Inr ex_mapping_result"
proof -
  let ?bad = "ex_mapping_result\<lparr>match_score := 11\<rparr>"
  let ?null = "ex_mapping_result\<lparr>gaps := None\<rparr>"
  have s: "resume ex_state \<noteq> None" "job_description ex_state \<noteq> None"
    by (simp_all add: ex_state_def)
  have b: "invoke (llm_of [Inr (MappingResultV ?bad)] []) (llm_calls ex_world)
             = Inr (MappingResultV ?bad)"
    and n: "invoke (llm_of [Inr (MappingResultV ?null)] []) (llm_calls ex_world)
             = Inr (MappingResultV ?null)"
    by (simp_all add: llm_of_def ex_world_def)
  from mapping_score_checked_and_lists_normalized [OF s b]
  have "\<exists>msg. fst (mapping_node ex_state (Some (llm_of [Inr (MappingResultV ?bad)] [])) ex_world)
          = Inl (ValueError msg)"
    by simp
  moreover from mapping_score_checked_and_lists_normalized [OF s n]
  have "fst (mapping_node ex_state (Some (llm_of [Inr (MappingResultV ?null)] [])) ex_world)
          = Inr ex_mapping_result"
    by (auto simp: ex_mapping_result_def list_or_empty_def)
  ultimately show ?thesis using s b n by simp
qed

section \<open>The feedback stage\<close>

lemma strip_empty_iff: "strip s = [] \<longleftrightarrow> (\<forall>c\<in>set s. isspace c)"
proof
  assume "strip s = []"
  then have all: "\<forall>x\<in>set (dropWhile isspace s). isspace x"
    by (simp add: strip_def dropWhile_eq_Nil_conv)
  have "dropWhile isspace s = []"
  proof (rule ccontr)
    assume ne: "dropWhile isspace s \<noteq> []"
    then have "\<not> isspace (hd (dropWhile isspace s))" by (rule hd_dropWhile)
    moreover have "hd (dropWhile isspace s) \<in> set (dropWhile isspace s)" using ne by simp
    ultimately show False using all by blast
  qed
  then show "\<forall>c\<in>set s. isspace c" by (simp add: dropWhile_eq_Nil_conv)
next
  assume "\<forall>c\<in>set s. isspace c"
  then have "dropWhile isspace s = []" by (simp add: dropWhile_eq_Nil_conv)
  then show "strip s = []" unfolding strip_def by (simp only: rev.simps dropWhile.simps)
qed

text \<open>
  Claim C9. Whatever the feedback stage returns is text with at least one character that
  is not whitespace; and when the answer of the model has content that is not a string, or
  is empty, or consists of whitespace only, the stage raises its \<open>ValueError\<close>.
\<close>

theorem feedback_returns_text_or_fails:
  "(\<forall>t. fst (feedback_node state m threshold w) = Inr t
        \<longrightarrow> t \<noteq> [] \<and> (\<exists>c\<in>set t. \<not> isspace c)) \<and>
   (\<forall>model v. m = Some model \<and> mapping_result state \<noteq> None \<and>
        invoke model (llm_calls w) = Inr v \<and>
        (str_content v = None \<or> (\<exists>s. str_content v = Some s \<and> (\<forall>c\<in>set s. isspace c)))
      \<longrightarrow> fst (feedback_node state m threshold w) =
            Inl (ValueError (py ''feedback_node: LLM must return non-empty text content'')))"
  by (auto simp: feedback_node_def call_llm_def strip_empty_iff
        split: option.splits sum.splits prod.splits if_splits)

theorem feedback_returns_text_or_fails_witness:
  "mapping_result ex_state \<noteq> None \<and>
   invoke blank_llm (llm_calls ex_world) = Inr (MessageV (StrContent (py ''  ''))) \<and>
   list_all isspace (py ''  '') \<and>
   fst (feedback_node ex_state (Some blank_llm) 9 ex_world) =
     Inl (ValueError (py ''feedback_node: LLM must return non-empty text content'')) \<and>
   fst (feedback_node ex_state
          (Some (llm_of [Inr (MessageV (StrContent (py ''Keep going'')))] [])) 9 ex_world)
     = Inr (py ''Keep going'') \<and>
   py ''Keep going'' \<noteq> []"
proof -
  have s: "mapping_result ex_state \<noteq> None" by (simp add: ex_state_def)
  have i: "invoke blank_llm (llm_calls ex_world) = Inr (MessageV (StrContent (py ''  '')))"
    by (simp add: blank_llm_def llm_of_def ex_world_def)
  have b: "\<forall>c\<in>set (py ''  ''). isspace c" by (simp add: py_def isspace_def)
  from feedback_returns_text_or_fails [of ex_state "Some blank_llm" 9 ex_world] s i b
  have "fst (feedback_node ex_state (Some blank_llm) 9 ex_world) =
          Inl (ValueError (py ''feedback_node: LLM must return non-empty text content''))"
    by simp
  moreover have g: "fst (feedback_node ex_state
          (Some (llm_of [Inr (MessageV (StrContent (py ''Keep going'')))] [])) 9 ex_world)
     = Inr (py ''Keep going'')"
    by (simp add: feedback_node_def ex_state_def call_llm_def llm_of_def ex_world_def
          strip_def py_def isspace_def)
  moreover from feedback_returns_text_or_fails
     [of ex_state "Some (llm_of [Inr (MessageV (StrContent (py ''Keep going'')))] [])" 9 ex_world] g
  have "py ''Keep going'' \<noteq> []" by simp
  ultimately show ?thesis using s i b by (simp add: list_all_iff)
qed

section \<open>The report stage\<close>

text \<open>
  Claim C8, as amended. When there is something to report and the call of the model made
  by the report stage fails, the stage makes that one call and no other, and the failure
  is absorbed: the stage returns normally, with no report summary.
\<close>

theorem report_failure_absorbed_without_retry:
  assumes "full_enhancement_output state = Some full_output"
      and "collect_reasons full_output \<noteq> []"
      and "invoke model (llm_calls w) = Inl e"
  shows "report_node state (Some model) w = (Inr None, w\<lparr>llm_calls := Suc (llm_calls w)\<rparr>)"
  using assms by (simp add: report_node_def call_llm_def)

theorem report_failure_absorbed_without_retry_witness:
  "full_enhancement_output ex_state = Some ex_full_output \<and>
   collect_reasons ex_full_output \<noteq> [] \<and>
   invoke failing_llm (llm_calls ex_world) = Inl (OtherError (py ''timeout'')) \<and>
   report_node ex_state (Some failing_llm) ex_world = (Inr None, ex_world\<lparr>llm_calls := 1\<rparr>)"
proof -
  have a: "full_enhancement_output ex_state = Some ex_full_output"
    by (simp add: ex_state_def)
  have b: "collect_reasons ex_full_output \<noteq> []"
    by (simp add: collect_reasons_def ex_full_output_def)
  have c: "invoke failing_llm (llm_calls ex_world) = Inl (OtherError (py ''timeout''))"
    by (simp add: failing_llm_def llm_of_def ex_world_def)
  from report_failure_absorbed_without_retry [OF a b c] a b c show ?thesis
    by (simp add: ex_world_def)
qed

text \<open>
  The claim as stated fails: with one change reason to report and a model whose call times
  out, the report stage does not raise; it returns \<open>None\<close> as the summary.
\<close>

theorem report_failure_does_not_propagate:
  "invoke failing_llm 0 = Inl (OtherError (py ''timeout'')) \<and>
   fst (report_node ex_state (Some failing_llm) ex_world) = Inr None"
  by (simp add: report_node_def ex_state_def collect_reasons_def ex_full_output_def
        call_llm_def failing_llm_def llm_of_def ex_world_def)

section \<open>Sectional enhancement\<close>

text \<open>A section that comes back with a result comes back with an instance of its class.\<close>

lemma enhance_single_section_attempts_result:
  "enhance_single_section_attempts m output_class attempts last_error w = ((Some v, e), w')
   \<Longrightarrow> isinstance v output_class \<and> e = None"
proof (induction attempts arbitrary: last_error w)
  case Nil
  then show ?case by simp
next
  case (Cons attempt rest)
  then show ?case
    by (auto simp: call_llm_def Let_def split: sum.splits if_splits)
qed

lemma section_present_setattr_each:
  "section_present (setattr fo ''summary'' (SummaryV s1)) n \<longleftrightarrow> n = ''summary'' \<or> section_present fo n"
  "section_present (setattr fo ''experiences'' (ExperiencesV s2)) n \<longleftrightarrow> n = ''experiences'' \<or> section_present fo n"
  "section_present (setattr fo ''educations'' (EducationsV s3)) n \<longleftrightarrow> n = ''educations'' \<or> section_present fo n"
  "section_present (setattr fo ''skills'' (SkillsV s4)) n \<longleftrightarrow> n = ''skills'' \<or> section_present fo n"
  "section_present (setattr fo ''certifications'' (CertificationsV s5)) n \<longleftrightarrow> n = ''certifications'' \<or> section_present fo n"
  "section_present (setattr fo ''languages'' (LanguagesV s6)) n \<longleftrightarrow> n = ''languages'' \<or> section_present fo n"
  "section_present (setattr fo ''projects'' (ProjectsV s7)) n \<longleftrightarrow> n = ''projects'' \<or> section_present fo n"
  unfolding setattr_def section_present_def
  subgoal by (cases "n = ''summary''"; simp)
  subgoal by (cases "n = ''experiences''"; simp)
  subgoal by (cases "n = ''educations''"; simp)
  subgoal by (cases "n = ''skills''"; simp)
  subgoal by (cases "n = ''certifications''"; simp)
  subgoal by (cases "n = ''languages''"; simp)
  subgoal by (cases "n = ''projects''"; simp)
  done

lemma paired_instance_cases:
  assumes "(section_name, output_class) \<in> set SECTIONAL_SECTIONS"
      and "isinstance v output_class"
  shows "(\<exists>s. v = SummaryV s \<and> section_name = ''summary'') \<or>
         (\<exists>s. v = ExperiencesV s \<and> section_name = ''experiences'') \<or>
         (\<exists>s. v = EducationsV s \<and> section_name = ''educations'') \<or>
         (\<exists>s. v = SkillsV s \<and> section_name = ''skills'') \<or>
         (\<exists>s. v = CertificationsV s \<and> section_name = ''certifications'') \<or>
         (\<exists>s. v = LanguagesV s \<and> section_name = ''languages'') \<or>
         (\<exists>s. v = ProjectsV s \<and> section_name = ''projects'')"
  using assms by (cases v; cases output_class) (simp_all add: SECTIONAL_SECTIONS_def)


lemma section_present_setattr:
  assumes "(section_name, output_class) \<in> set SECTIONAL_SECTIONS"
      and "isinstance v output_class"
  shows "section_present (setattr full_output section_name v) n \<longleftrightarrow>
           n = section_name \<or> section_present full_output n"
  using paired_instance_cases[OF assms]
  by (elim disjE exE conjE) (simp_all only: section_present_setattr_each)

lemma present_sections_setattr:
  "(section_name, output_class) \<in> set SECTIONAL_SECTIONS \<Longrightarrow> isinstance v output_class \<Longrightarrow>
   present_sections (setattr full_output section_name v) =
     insert section_name (present_sections full_output)"
  by (auto simp: present_sections_def section_present_setattr)

lemma enhance_sectional_loop_sets:
  assumes "set secs \<subseteq> set SECTIONAL_SECTIONS" and "distinct (map fst secs)"
      and "enhance_sectional_loop m time secs acc w = (acc', w')"
  shows "\<exists>S F. S \<union> F = fst ` set secs \<and> S \<inter> F = {} \<and>
           present_sections (acc_full_output acc') = present_sections (acc_full_output acc) \<union> S \<and>
           fst ` set (acc_section_errors acc') = fst ` set (acc_section_errors acc) \<union> F \<and>
           fst ` set (acc_section_timings acc') =
             fst ` set (acc_section_timings acc) \<union> fst ` set secs"
  using assms
proof (induction secs arbitrary: acc w)
  case Nil
  then show ?case by simp
next
  case (Cons sec rest)
  obtain section_name output_class where sec: "sec = (section_name, output_class)"
    by (cases sec)
  obtain section_start w1 where r1: "read_clock time w = (section_start, w1)"
    by (cases "read_clock time w")
  obtain result error w2 where r2:
    "enhance_single_section section_name output_class m w1 = ((result, error), w2)"
    by (cases "enhance_single_section section_name output_class m w1") auto
  obtain now w3 where r3: "read_clock time w2 = (now, w3)"
    by (cases "read_clock time w2")
  let ?acc1 = "acc\<lparr>acc_section_timings :=
       AList.update section_name ((now - section_start) * 1000) (acc_section_timings acc)\<rparr>"
  define acc2 where "acc2 = (case result of
        Some r \<Rightarrow> ?acc1\<lparr>acc_full_output := setattr (acc_full_output ?acc1) section_name r,
                        acc_sections_succeeded := acc_sections_succeeded ?acc1 @ [section_name]\<rparr>
      | None \<Rightarrow> ?acc1\<lparr>acc_section_errors :=
                        AList.update section_name (or_unknown_error error) (acc_section_errors ?acc1),
                      acc_sections_failed := acc_sections_failed ?acc1 @ [section_name]\<rparr>)"
  from Cons.prems(3) have run: "enhance_sectional_loop m time rest acc2 w3 = (acc', w')"
    unfolding acc2_def sec by (simp only: enhance_sectional_loop.simps r1 r2 r3 Let_def prod.case)
  from Cons.prems(1) have sub: "set rest \<subseteq> set SECTIONAL_SECTIONS"
    and mem: "(section_name, output_class) \<in> set SECTIONAL_SECTIONS"
    by (simp_all add: sec)
  from Cons.prems(2) have dis: "distinct (map fst rest)"
    and fresh: "section_name \<notin> fst ` set rest"
    by (simp_all add: sec)
  from Cons.IH[OF sub dis run] obtain S F where
    SF: "S \<union> F = fst ` set rest" "S \<inter> F = {}"
    and p: "present_sections (acc_full_output acc') = present_sections (acc_full_output acc2) \<union> S"
    and e: "fst ` set (acc_section_errors acc') = fst ` set (acc_section_errors acc2) \<union> F"
    and t: "fst ` set (acc_section_timings acc') =
              fst ` set (acc_section_timings acc2) \<union> fst ` set rest"
    by (elim exE conjE) (rule that)
  have t2: "fst ` set (acc_section_timings acc2) =
              insert section_name (fst ` set (acc_section_timings acc))"
    by (cases result) (simp_all add: acc2_def AList.dom_update)
  show ?case
  proof (cases result)
    case None
    have "present_sections (acc_full_output acc2) = present_sections (acc_full_output acc)"
      and "fst ` set (acc_section_errors acc2) = insert section_name (fst ` set (acc_section_errors acc))"
      using None by (simp_all add: acc2_def AList.dom_update)
    with SF p e t t2 fresh show ?thesis
      by (intro exI[of _ S] exI[of _ "insert section_name F"]) (auto simp: sec)
  next
    case (Some v)
    with r2 have "isinstance v output_class"
      by (auto simp: enhance_single_section_def dest: enhance_single_section_attempts_result)
    with mem Some have "present_sections (acc_full_output acc2) =
        insert section_name (present_sections (acc_full_output acc))"
      and "fst ` set (acc_section_errors acc2) = fst ` set (acc_section_errors acc)"
      by (simp_all add: acc2_def present_sections_setattr)
    with SF p e t t2 fresh show ?thesis
      by (intro exI[of _ "insert section_name S"] exI[of _ F]) (auto simp: sec)
  qed
qed

lemma present_sections_new: "present_sections FullEnhancementOutput_new = {}"
  by (simp add: present_sections_def section_present_def FullEnhancementOutput_new_def)

lemma distinct_SECTIONAL_SECTIONS: "distinct (map fst SECTIONAL_SECTIONS)"
  by (simp add: SECTIONAL_SECTIONS_def)


text \<open>
  Claim C10. With a resume, a mapping result and a model in the state,
  \<open>enhance_sectional_node\<close> returns, and for each of the seven section names the returned
  output has the section exactly when \<open>section_errors\<close> has no entry for it, while
  \<open>section_timings\<close> has an entry for it in either case.
\<close>

theorem sectional_result_covers_every_section:
  assumes "resume state \<noteq> None" and "mapping_result state \<noteq> None"
  shows "\<exists>out w'.
           enhance_sectional_node state (Some model) time w = (Inr out, w') \<and>
           (\<forall>n\<in>set (map fst SECTIONAL_SECTIONS).
              (section_present (SectionalResult.full_enhancement_output out) n
                 \<longleftrightarrow> n \<notin> fst ` set (section_errors out)) \<and>
              n \<in> fst ` set (section_timings out))"
proof -
  obtain start_time w0 where r0: "read_clock time w = (start_time, w0)"
    by (cases "read_clock time w")
  let ?init = "\<lparr>acc_full_output = FullEnhancementOutput_new, acc_section_errors = [],
                 acc_section_timings = [], acc_sections_succeeded = [], acc_sections_failed = []\<rparr>"
  obtain acc w1 where run: "enhance_sectional_loop model time SECTIONAL_SECTIONS ?init w0 = (acc, w1)"
    by (cases "enhance_sectional_loop model time SECTIONAL_SECTIONS ?init w0")
  obtain end_time w2 where r2: "read_clock time w1 = (end_time, w2)"
    by (cases "read_clock time w1")
  from enhance_sectional_loop_sets[OF subset_refl distinct_SECTIONAL_SECTIONS run]
  obtain S F where SF: "S \<union> F = fst ` set SECTIONAL_SECTIONS" "S \<inter> F = {}"
    and p: "present_sections (acc_full_output acc) = S"
    and e: "fst ` set (acc_section_errors acc) = F"
    and t: "fst ` set (acc_section_timings acc) = fst ` set SECTIONAL_SECTIONS"
    by (auto simp: present_sections_new)
  have "\<forall>n\<in>set (map fst SECTIONAL_SECTIONS).
          (section_present (acc_full_output acc) n \<longleftrightarrow> n \<notin> fst ` set (acc_section_errors acc)) \<and>
          n \<in> fst ` set (acc_section_timings acc)"
  proof
    fix n assume "n \<in> set (map fst SECTIONAL_SECTIONS)"
    then have n: "n \<in> S \<union> F" using SF by simp
    have "section_present (acc_full_output acc) n \<longleftrightarrow> n \<in> S"
      using p by (auto simp: present_sections_def)
    with n SF e t show "(section_present (acc_full_output acc) n \<longleftrightarrow> n \<notin> fst ` set (acc_section_errors acc)) \<and>
          n \<in> fst ` set (acc_section_timings acc)" by auto
  qed
  with assms r0 run r2 show ?thesis
    by (simp add: enhance_sectional_node_def)
qed


theorem sectional_result_covers_every_section_witness:
  "resume ex_state \<noteq> None \<and> mapping_result ex_state \<noteq> None \<and>
   ''skills'' \<in> set (map fst SECTIONAL_SECTIONS) \<and>
   (\<exists>out w'.
      enhance_sectional_node ex_state (Some skills_fail_llm) ex_time ex_world = (Inr out, w') \<and>
      (section_present (SectionalResult.full_enhancement_output out) ''skills''
         \<longleftrightarrow> ''skills'' \<notin> fst ` set (section_errors out)) \<and>
      ''skills'' \<in> fst ` set (section_timings out))"
proof -
  have a: "resume ex_state \<noteq> None" and b: "mapping_result ex_state \<noteq> None"
    by (simp_all add: ex_state_def)
  have c: "''skills'' \<in> set (map fst SECTIONAL_SECTIONS)"
    by (simp add: SECTIONAL_SECTIONS_def)
  from sectional_result_covers_every_section [OF a b, of skills_fail_llm ex_time ex_world]
  obtain out w' where
    run: "enhance_sectional_node ex_state (Some skills_fail_llm) ex_time ex_world = (Inr out, w')"
    and all: "\<forall>n\<in>set (map fst SECTIONAL_SECTIONS).
              (section_present (SectionalResult.full_enhancement_output out) n
                 \<longleftrightarrow> n \<notin> fst ` set (section_errors out)) \<and>
              n \<in> fst ` set (section_timings out)"
    by (elim exE conjE) (rule that)
  from bspec [OF all c] run a b c show ?thesis by simp
qed

text \<open>
  Claim C1 at a failing input. The resume has no experiences list (\<open>None\<close>, which the
  schema allows), the two calls for skills fail and every other section succeeds, the
  model returning one experience. The sectional node records exactly the skills error and
  keeps the six other sections, but the merge then raises \<open>TypeError\<close> from
  \<open>len(original)\<close> in \<open>validate_experiences\<close>: there is no merged resume.
\<close>

theorem partial_failure_merge_raises_without_experiences:
  "(case enhance_sectional_node no_experiences_state (Some skills_fail_llm) ex_time ex_world of
      (Inl e, w') \<Rightarrow> False
    | (Inr out, w') \<Rightarrow>
        section_errors out = [(''skills'', py ''rate limit'')] \<and>
        succeeded_list (sectional_metadata out) =
          [''summary'', ''experiences'', ''educations'', ''certifications'', ''languages'',
           ''projects''] \<and>
        SectionalResult.full_enhancement_output out = ex_full_output\<lparr>skills := None\<rparr> \<and>
        fst (format_node
               (no_experiences_state
                  \<lparr>full_enhancement_output := Some (SectionalResult.full_enhancement_output out)\<rparr>)
               ex_heap) = Inl NoneType_has_no_len)"
  by code_simp

section \<open>Streaming enhancement\<close>
























end
